theory Spec2Isabelle
  imports Complex_Main
begin

section \<open>Transaction service (Deployments/go/main.go): data model\<close>

text \<open>
  The Go program is a small HTTP service over a PostgreSQL table with Prometheus
  instrumentation. Its own code is embedded function by function. The libraries it
  calls (net/http, database/sql, encoding/json, strconv, the Prometheus client) are
  not part of the repository: their behaviour is either written out from their
  documented contract (\<open>Atoi\<close>, \<open>Itoa\<close>, \<open>http_Error\<close>, the metric instruments) or
  taken as a parameter (the store, the JSON codec, the underlying response writer),
  so that a theorem holds for every behaviour of that collaborator.

  Conventions: Go's \<open>int\<close> is modelled as \<open>int\<close>; the only place where the 64-bit
  range decides a result is \<open>strconv.Atoi\<close>, where it is written out. A \<open>float64\<close>
  that comes out of the JSON decoder is finite and is modelled as the \<open>real\<close> it
  denotes. The sum kept by the gauge is the result of \<open>float64\<close> additions: it is
  rounded to the nearest \<open>float64\<close> at every step and may become infinite.
  A \<open>time.Time\<close> is a count of nanoseconds. Log output is not modelled.

  Embedded: \<open>initMetrics\<close>, \<open>metricsMiddleware\<close>, \<open>responseWriter\<close> with its two
  methods, \<open>createTransaction\<close>, \<open>listTransactions\<close> and \<open>getTransaction\<close>.
  \<open>setupRoutes\<close> installs \<open>metricsMiddleware\<close> on the router with \<open>r.Use\<close>, so
  every route handler runs inside it; the router itself, \<open>initDB\<close>, the pool sampler
  \<open>collectDBStats\<close> and \<open>healthCheck\<close> are not embedded.
\<close>

type_synonym float64 = real
type_synonym Time = int

subsection \<open>float64 addition\<close>

text \<open>
  A \<open>float64\<close> that is the result of arithmetic: a finite value, an infinity or NaN.
  The two zeros are not told apart.
\<close>

datatype xfloat64 = Finite real | PosInf | NegInf | NaN

definition pow2 :: "int \<Rightarrow> real" where
  "pow2 k = (if 0 \<le> k then 2 ^ nat k else 1 / 2 ^ nat (- k))"

text \<open>
  The binary exponent of a positive number: \<open>binade x\<close> is the \<open>e\<close> with
  \<open>2 ^ e \<le> x < 2 ^ (e + 1)\<close>, found by halving or doubling, and kept between -1022
  (below which the spacing of \<open>float64\<close> values no longer shrinks) and 1024 (from
  which on there is no finite \<open>float64\<close>).
\<close>

function exp_up :: "real \<Rightarrow> int \<Rightarrow> int" where
  "exp_up x e = (if x < 2 \<or> 1024 \<le> e then e else exp_up (x / 2) (e + 1))"
  by pat_completeness auto
termination
  by (relation "measure (\<lambda>(x, e). nat (1024 - e))") auto

function exp_down :: "real \<Rightarrow> int \<Rightarrow> int" where
  "exp_down x e = (if 1 \<le> x \<or> e \<le> - 1022 then e else exp_down (x * 2) (e - 1))"
  by pat_completeness auto
termination
  by (relation "measure (\<lambda>(x, e). nat (e + 1022))") auto

declare exp_up.simps [simp del] exp_down.simps [simp del]

definition binade :: "real \<Rightarrow> int" where
  "binade x = (if 1 \<le> x then exp_up x 0 else exp_down x 0)"

text \<open>The nearest integer, a tie going to the even one.\<close>

definition round_half_even :: "real \<Rightarrow> int" where
  "round_half_even q =
     (let f = \<lfloor>q\<rfloor>; d = q - of_int f
      in if d < 1 / 2 then f else if 1 / 2 < d then f + 1 else if even f then f else f + 1)"

text \<open>
  A positive number rounded to the nearest multiple of the spacing of its binade:
  a \<open>float64\<close> has 53 significant bits, so the spacing is \<open>2 ^ (e - 52)\<close>.
\<close>

definition round_mag :: "real \<Rightarrow> real" where
  "round_mag ay = (let u = pow2 (binade ay - 52) in of_int (round_half_even (ay / u)) * u)"

text \<open>
  IEEE 754 rounding of an exact result to \<open>float64\<close>, to nearest with ties to even:
  a rounded magnitude of \<open>2 ^ 1024\<close> or more is an infinity.
\<close>

definition round64 :: "real \<Rightarrow> xfloat64" where
  "round64 y =
     (if y = 0 then Finite 0
      else (let r = round_mag \<bar>y\<bar>
            in if pow2 1024 \<le> r then (if y < 0 then NegInf else PosInf)
               else Finite (if y < 0 then - r else r)))"

text \<open>Go's \<open>+\<close> on a \<open>float64\<close> and a finite \<open>float64\<close>.\<close>

definition float64_add :: "xfloat64 \<Rightarrow> float64 \<Rightarrow> xfloat64" where
  "float64_add s v =
     (case s of
        Finite x \<Rightarrow> round64 (x + v)
      | PosInf \<Rightarrow> PosInf
      | NegInf \<Rightarrow> NegInf
      | NaN \<Rightarrow> NaN)"

text \<open>Go's \<open>error\<close> values: the sentinel \<open>sql.ErrNoRows\<close>, or any other error.\<close>

datatype error = ErrNoRows | Err string

record Transaction =
  ID :: string
  Value :: float64
  Timestamp :: Time
  Status :: string
  CreatedAt :: Time

text \<open>\<open>TransactionRequest\<close>: the fields \<open>Value\<close> and \<open>Timestamp\<close> of the request body.\<close>

record TransactionRequest =
  req_Value :: float64
  req_Timestamp :: Time

text \<open>
  The part of \<open>*http.Request\<close> the handlers read: \<open>r.Method\<close>, \<open>r.URL.Path\<close>,
  the key/value pairs of \<open>r.URL.Query()\<close> in order, the route variables
  \<open>mux.Vars(r)\<close>, \<open>r.ContentLength\<close> and the bytes of \<open>r.Body\<close>.
\<close>

record Request =
  Method :: string
  URL_Path :: string
  URL_Query :: "(string \<times> string) list"
  Vars :: "(string \<times> string) list"
  ContentLength :: int
  Body :: string

text \<open>\<open>url.Values.Get\<close> and indexing a Go map of strings: the first value, or the empty string.\<close>

definition Get :: "(string \<times> string) list \<Rightarrow> string \<Rightarrow> string" where
  "Get vs key = (case map_of vs key of None \<Rightarrow> [] | Some v \<Rightarrow> v)"

subsection \<open>strconv\<close>

definition digit_char :: "nat \<Rightarrow> char" where
  "digit_char d = ''0123456789'' ! d"

fun utoa :: "nat \<Rightarrow> string" where
  "utoa n = (if n < 10 then [digit_char n] else utoa (n div 10) @ [digit_char (n mod 10)])"

declare utoa.simps [simp del]

text \<open>\<open>strconv.Itoa\<close>: decimal digits, with a minus sign for a negative number.\<close>

definition Itoa :: "int \<Rightarrow> string" where
  "Itoa i = (if i < 0 then CHR ''-'' # utoa (nat (- i)) else utoa (nat i))"

definition digit_val :: "char \<Rightarrow> nat option" where
  "digit_val c =
     (let n = (of_char c :: nat) in if 48 \<le> n \<and> n \<le> 57 then Some (n - 48) else None)"

text \<open>The digit loop of \<open>strconv.Atoi\<close>: any byte that is not a decimal digit is a syntax error.\<close>

fun atou :: "string \<Rightarrow> nat \<Rightarrow> nat option" where
  "atou [] acc = Some acc"
| "atou (c # cs) acc =
     (case digit_val c of None \<Rightarrow> None | Some d \<Rightarrow> atou cs (acc * 10 + d))"

text \<open>
  \<open>strconv.Atoi\<close> on a 64-bit platform: an optional sign, at least one decimal digit,
  nothing else, and a value in the range of \<open>int64\<close>; \<open>None\<close> is the error result
  (syntax or range).
\<close>

definition Atoi :: "string \<Rightarrow> int option" where
  "Atoi s =
     (case s of
        [] \<Rightarrow> None
      | c # cs \<Rightarrow>
          (let neg = (c = CHR ''-'');
               ds = (if c = CHR ''-'' \<or> c = CHR ''+'' then cs else s)
           in if ds = [] then None
              else (case atou ds 0 of
                      None \<Rightarrow> None
                    | Some n \<Rightarrow>
                        (let v = (if neg then - int n else int n)
                         in if v < - (2 ^ 63) \<or> 2 ^ 63 - 1 < v then None else Some v))))"

subsection \<open>Prometheus instruments\<close>

text \<open>
  The instruments of the Prometheus client, as far as the program uses them. A counter
  counts its \<open>Inc\<close> calls, a gauge holds a \<open>float64\<close>, a histogram keeps the observations
  it was given (in order) and its bucket boundaries; a vector holds one such value
  for each tuple of label values. \<open>WithLabelValues\<close> is always called with as many
  values as the vector has label names (three, two and one), so its panic on a
  wrong count is not a branch of the model.
\<close>

record Opts =
  Name :: string
  Help :: string

record HistogramOpts = Opts +
  Buckets :: "float64 list"

record HistogramVec =
  hv_name :: string
  hv_labels :: "string list"
  hv_buckets :: "float64 list"
  hv_obs :: "string list \<Rightarrow> float64 list"

record CounterVec =
  cv_name :: string
  cv_labels :: "string list"
  cv_val :: "string list \<Rightarrow> nat"

record Gauge =
  g_name :: string
  g_val :: xfloat64

record Counter =
  c_name :: string
  c_val :: nat

text \<open>\<open>prometheus.DefBuckets\<close>, used when \<open>HistogramOpts.Buckets\<close> is empty.\<close>

definition DefBuckets :: "float64 list" where
  "DefBuckets = [0.005, 0.01, 0.025, 0.05, 0.1, 0.25, 0.5, 1, 2.5, 5, 10]"

fun exp_loop :: "float64 \<Rightarrow> float64 \<Rightarrow> nat \<Rightarrow> float64 list" where
  "exp_loop start factor 0 = []"
| "exp_loop start factor (Suc n) = start # exp_loop (start * factor) factor n"

text \<open>\<open>prometheus.ExponentialBuckets\<close>; \<open>None\<close> is its panic on a bad argument.\<close>

definition ExponentialBuckets :: "float64 \<Rightarrow> float64 \<Rightarrow> int \<Rightarrow> float64 list option" where
  "ExponentialBuckets start factor count =
     (if count < 1 \<or> start \<le> 0 \<or> factor \<le> 1 then None
      else Some (exp_loop start factor (nat count)))"

definition NewHistogramVec :: "HistogramOpts \<Rightarrow> string list \<Rightarrow> HistogramVec" where
  "NewHistogramVec opts labelNames =
     \<lparr>hv_name = Name opts, hv_labels = labelNames,
      hv_buckets = (if Buckets opts = [] then DefBuckets else Buckets opts),
      hv_obs = (\<lambda>_. [])\<rparr>"

definition NewCounterVec :: "Opts \<Rightarrow> string list \<Rightarrow> CounterVec" where
  "NewCounterVec opts labelNames =
     \<lparr>cv_name = Name opts, cv_labels = labelNames, cv_val = (\<lambda>_. 0)\<rparr>"

definition NewGauge :: "Opts \<Rightarrow> Gauge" where
  "NewGauge opts = \<lparr>g_name = Name opts, g_val = Finite 0\<rparr>"

definition NewCounter :: "Opts \<Rightarrow> Counter" where
  "NewCounter opts = \<lparr>c_name = Name opts, c_val = 0\<rparr>"

text \<open>\<open>h.WithLabelValues(lvs...).Observe(v)\<close>\<close>

definition Observe :: "HistogramVec \<Rightarrow> string list \<Rightarrow> float64 \<Rightarrow> HistogramVec" where
  "Observe h lvs v = h\<lparr>hv_obs := (hv_obs h)(lvs := hv_obs h lvs @ [v])\<rparr>"

text \<open>\<open>c.WithLabelValues(lvs...).Inc()\<close>\<close>

definition IncVec :: "CounterVec \<Rightarrow> string list \<Rightarrow> CounterVec" where
  "IncVec c lvs = c\<lparr>cv_val := (cv_val c)(lvs := cv_val c lvs + 1)\<rparr>"

definition Inc :: "Counter \<Rightarrow> Counter" where
  "Inc c = c\<lparr>c_val := c_val c + 1\<rparr>"

text \<open>\<open>g.Add(v)\<close>: the gauge holds a \<open>float64\<close> and adds to it in \<open>float64\<close>.\<close>

definition Add :: "Gauge \<Rightarrow> float64 \<Rightarrow> Gauge" where
  "Add g v = g\<lparr>g_val := float64_add (g_val g) v\<rparr>"

subsection \<open>The application state\<close>

text \<open>
  \<open>App\<close>: the database handle and the seven instruments. The handle stands for the
  store it reaches, whose state has an arbitrary type \<open>'x\<close>.
\<close>

record 'x App =
  db :: 'x
  httpDuration :: HistogramVec
  httpRequests :: CounterVec
  txnCounter :: CounterVec
  txnValueSum :: Gauge
  txnErrorCounter :: Counter
  httpRequestSize :: HistogramVec
  httpResponseSize :: HistogramVec

text \<open>
  \<open>initMetrics\<close> (lines 49-101). The registration calls that follow in the source act
  on the process-wide default registry and are left out.
\<close>

definition initMetrics :: "'x App \<Rightarrow> 'x App option" where
  "initMetrics a =
     (let a = a\<lparr>httpDuration := NewHistogramVec
                 \<lparr>Name = ''http_request_duration_seconds'', Help = ''Duration of HTTP requests'',
                  Buckets = []\<rparr>
                 [''path'', ''method'', ''status_code'']\<rparr>;
          a = a\<lparr>httpRequests := NewCounterVec
                 \<lparr>Name = ''http_requests_total'', Help = ''Total number of HTTP requests''\<rparr>
                 [''path'', ''method'', ''status_code'']\<rparr>;
          a = a\<lparr>txnCounter := NewCounterVec
                 \<lparr>Name = ''transactions_total'', Help = ''Total number of transactions''\<rparr>
                 [''status'']\<rparr>;
          a = a\<lparr>txnValueSum := NewGauge
                 \<lparr>Name = ''transactions_value_sum'',
                  Help = ''Sum of all transaction values processed.''\<rparr>\<rparr>;
          a = a\<lparr>txnErrorCounter := NewCounter
                 \<lparr>Name = ''transactions_errors_total'',
                  Help = ''Number of failed transaction creations.''\<rparr>\<rparr>
      in case ExponentialBuckets 100 10 5 of
           None \<Rightarrow> None
         | Some b1 \<Rightarrow>
             (let a = a\<lparr>httpRequestSize := NewHistogramVec
                        \<lparr>Name = ''http_request_size_bytes'', Help = ''Size of HTTP requests'',
                         Buckets = b1\<rparr>
                        [''path'', ''method'']\<rparr>
              in case ExponentialBuckets 100 10 5 of
                   None \<Rightarrow> None
                 | Some b2 \<Rightarrow>
                     Some (a\<lparr>httpResponseSize := NewHistogramVec
                              \<lparr>Name = ''http_response_size_bytes'',
                               Help = ''Size of HTTP responses'', Buckets = b2\<rparr>
                              [''path'', ''method'', ''status_code'']\<rparr>)))"

subsection \<open>Response writers\<close>

text \<open>
  The interface \<open>http.ResponseWriter\<close> as a table of methods over a writer state
  \<open>'w\<close>: \<open>w.Header().Set(k, v)\<close>, \<open>w.WriteHeader(code)\<close> and \<open>w.Write(b)\<close>, which
  returns the number of bytes written and an error (\<open>None\<close> is \<open>nil\<close>).
\<close>

record 'w http_ResponseWriter =
  Header_Set :: "'w \<Rightarrow> string \<Rightarrow> string \<Rightarrow> 'w"
  WriteHeader :: "'w \<Rightarrow> int \<Rightarrow> 'w"
  Write :: "'w \<Rightarrow> string \<Rightarrow> (int \<times> error option) \<times> 'w"

text \<open>
  \<open>responseWriter\<close> (lines 230-245): the embedded writer, \<open>statusCode\<close> and \<open>size\<close>
  (the field is named \<open>size_rw\<close> here).
\<close>

record 'u responseWriter =
  ResponseWriter :: 'u
  statusCode :: int
  size_rw :: int

definition responseWriter_WriteHeader ::
  "'u http_ResponseWriter \<Rightarrow> 'u responseWriter \<Rightarrow> int \<Rightarrow> 'u responseWriter" where
  "responseWriter_WriteHeader U rw code =
     (let rw = rw\<lparr>statusCode := code\<rparr>
      in rw\<lparr>ResponseWriter := WriteHeader U (ResponseWriter rw) code\<rparr>)"

definition responseWriter_Write ::
  "'u http_ResponseWriter \<Rightarrow> 'u responseWriter \<Rightarrow> string
     \<Rightarrow> (int \<times> error option) \<times> 'u responseWriter" where
  "responseWriter_Write U rw b =
     (case Write U (ResponseWriter rw) b of
        ((sz, err), u) \<Rightarrow> ((sz, err), rw\<lparr>ResponseWriter := u, size_rw := size_rw rw + sz\<rparr>))"

text \<open>\<open>Header\<close> is not overridden: the call goes to the embedded writer.\<close>

definition responseWriter_Header_Set ::
  "'u http_ResponseWriter \<Rightarrow> 'u responseWriter \<Rightarrow> string \<Rightarrow> string \<Rightarrow> 'u responseWriter" where
  "responseWriter_Header_Set U rw k v =
     rw\<lparr>ResponseWriter := Header_Set U (ResponseWriter rw) k v\<rparr>"

text \<open>\<open>*responseWriter\<close> as an \<open>http.ResponseWriter\<close>, over the embedded writer's methods.\<close>

definition as_ResponseWriter ::
  "'u http_ResponseWriter \<Rightarrow> 'u responseWriter http_ResponseWriter" where
  "as_ResponseWriter U =
     \<lparr>Header_Set = responseWriter_Header_Set U,
      WriteHeader = responseWriter_WriteHeader U,
      Write = responseWriter_Write U\<rparr>"

text \<open>
  \<open>http.Error\<close> of net/http: two header fields, the status code, then the message
  and a newline; the result of the write is dropped, as \<open>fmt.Fprintln\<close>'s is there.
\<close>

definition http_Error :: "'w http_ResponseWriter \<Rightarrow> 'w \<Rightarrow> string \<Rightarrow> int \<Rightarrow> 'w" where
  "http_Error W w msg code =
     (let w = Header_Set W w ''Content-Type'' ''text/plain; charset=utf-8'';
          w = Header_Set W w ''X-Content-Type-Options'' ''nosniff'';
          w = WriteHeader W w code
      in snd (Write W w (msg @ [CHR 0x0A])))"

abbreviation StatusOK :: int where "StatusOK \<equiv> 200"
abbreviation StatusCreated :: int where "StatusCreated \<equiv> 201"
abbreviation StatusBadRequest :: int where "StatusBadRequest \<equiv> 400"
abbreviation StatusNotFound :: int where "StatusNotFound \<equiv> 404"
abbreviation StatusInternalServerError :: int where "StatusInternalServerError \<equiv> 500"

text \<open>
  \<open>httptest.ResponseRecorder\<close>, the standard in-memory \<open>http.ResponseWriter\<close>: it
  shows what a client receives. Only the first \<open>WriteHeader\<close> counts, a \<open>Write\<close>
  before any \<open>WriteHeader\<close> sends status 200, header fields set after the status line
  are not sent, and \<open>Write\<close> returns the length of its argument and no error.
\<close>

record ResponseRecorder =
  Code :: int
  HeaderMap :: "string \<rightharpoonup> string"
  RespBody :: string
  wroteHeader :: bool

definition NewRecorder :: ResponseRecorder where
  "NewRecorder = \<lparr>Code = 200, HeaderMap = Map.empty, RespBody = [], wroteHeader = False\<rparr>"

definition rec_Header_Set :: "ResponseRecorder \<Rightarrow> string \<Rightarrow> string \<Rightarrow> ResponseRecorder" where
  "rec_Header_Set rw k v =
     (if wroteHeader rw then rw
      else rw\<lparr>HeaderMap := (HeaderMap rw)(k \<mapsto> v)\<rparr>)"

definition rec_WriteHeader :: "ResponseRecorder \<Rightarrow> int \<Rightarrow> ResponseRecorder" where
  "rec_WriteHeader rw code =
     (if wroteHeader rw then rw else rw\<lparr>Code := code, wroteHeader := True\<rparr>)"

definition rec_Write ::
  "ResponseRecorder \<Rightarrow> string \<Rightarrow> (int \<times> error option) \<times> ResponseRecorder" where
  "rec_Write rw buf =
     (let rw = (if wroteHeader rw then rw else rec_WriteHeader rw 200)
      in ((int (length buf), None), rw\<lparr>RespBody := RespBody rw @ buf\<rparr>))"

definition Recorder :: "ResponseRecorder http_ResponseWriter" where
  "Recorder = \<lparr>Header_Set = rec_Header_Set, WriteHeader = rec_WriteHeader, Write = rec_Write\<rparr>"

subsection \<open>The store and the JSON codec\<close>

datatype sql_arg = ArgFloat float64 | ArgTime Time | ArgInt int | ArgString string

text \<open>
  What the program gets from outside, for a store state \<open>'x\<close>:
  \<^item> \<open>Decode\<close>: \<open>json.NewDecoder(r.Body).Decode(&req)\<close> on the bytes of the body;
  \<^item> \<open>QueryRow\<close>: \<open>a.db.QueryRow(query, args...).Scan(...)\<close> into a \<open>Transaction\<close>;
  \<^item> \<open>Query\<close>: \<open>a.db.Query(query, args...)\<close>; on success a \<open>Rows\<close>;
  \<^item> \<open>enc_string\<close>, \<open>enc_float\<close>, \<open>enc_time\<close>: how \<open>encoding/json\<close> writes a
    string, a \<open>float64\<close> and a \<open>time.Time\<close>.
  The store operations return the new state of the store.
\<close>

text \<open>
  \<open>*sql.Rows\<close>, as a loop over it sees it: the rows for which \<open>rows.Next()\<close> is
  true, each as the result of its \<open>rows.Scan\<close>, and what \<open>rows.Err()\<close> returns after
  \<open>rows.Next()\<close> has become false: \<open>None\<close> when the result set was read to its end,
  the error when the store failed during the iteration.
\<close>

record Rows =
  rows_Next :: "(error + Transaction) list"
  rows_Err :: "error option"

record 'x Env =
  Decode :: "string \<Rightarrow> error + TransactionRequest"
  QueryRow :: "'x \<Rightarrow> string \<Rightarrow> sql_arg list \<Rightarrow> (error + Transaction) \<times> 'x"
  Query :: "'x \<Rightarrow> string \<Rightarrow> sql_arg list \<Rightarrow> (error + Rows) \<times> 'x"
  enc_string :: "string \<Rightarrow> string"
  enc_float :: "float64 \<Rightarrow> string"
  enc_time :: "Time \<Rightarrow> string"

definition quoted :: "string \<Rightarrow> string" where
  "quoted k = CHR 0x22 # k @ [CHR 0x22]"

definition field_key :: "string \<Rightarrow> string" where
  "field_key k = quoted k @ '':''"

text \<open>\<open>json.Marshal\<close> of a \<open>Transaction\<close>: an object with the five tagged fields, in order.\<close>

definition Marshal_Transaction :: "'x Env \<Rightarrow> Transaction \<Rightarrow> string" where
  "Marshal_Transaction E t =
     ''{'' @ field_key ''id'' @ enc_string E (ID t) @ '','' @
     field_key ''value'' @ enc_float E (Value t) @ '','' @
     field_key ''timestamp'' @ enc_time E (Timestamp t) @ '','' @
     field_key ''status'' @ enc_string E (Status t) @ '','' @
     field_key ''created_at'' @ enc_time E (CreatedAt t) @ ''}''"

fun join_comma :: "string list \<Rightarrow> string" where
  "join_comma [] = []"
| "join_comma [x] = x"
| "join_comma (x # y # ys) = x @ '','' @ join_comma (y # ys)"

text \<open>
  A Go slice is \<open>nil\<close> (\<open>None\<close>) or holds elements. \<open>json.Marshal\<close> writes a nil slice as
  \<open>null\<close> and any other slice as an array.
\<close>

definition append_slice :: "'a list option \<Rightarrow> 'a \<Rightarrow> 'a list option" where
  "append_slice s x = (case s of None \<Rightarrow> Some [x] | Some xs \<Rightarrow> Some (xs @ [x]))"

definition Marshal_Transactions :: "'x Env \<Rightarrow> Transaction list option \<Rightarrow> string" where
  "Marshal_Transactions E s =
     (case s of
        None \<Rightarrow> ''null''
      | Some ts \<Rightarrow> ''['' @ join_comma (map (Marshal_Transaction E) ts) @ '']'')"

text \<open>
  \<open>json.NewEncoder(w).Encode(v)\<close>, given the marshalled bytes of \<open>v\<close>: one \<open>Write\<close> of
  the bytes and a newline. The handlers drop the error it returns.
\<close>

definition Encode :: "'w http_ResponseWriter \<Rightarrow> 'w \<Rightarrow> string \<Rightarrow> 'w" where
  "Encode W w bytes = snd (Write W w (bytes @ [CHR 0x0A]))"

section \<open>The request-instrumentation middleware\<close>

text \<open>A handler acts on the application state and on the writer it is given.\<close>

type_synonym ('x, 'w) Handler =
  "'w http_ResponseWriter \<Rightarrow> 'x App \<Rightarrow> 'w \<Rightarrow> Request \<Rightarrow> 'x App \<times> 'w"

definition Seconds :: "int \<Rightarrow> float64" where
  "Seconds d = real_of_int d / 10 ^ 9"

text \<open>
  \<open>metricsMiddleware\<close> (lines 209-228). \<open>start\<close> and \<open>finish\<close> are the two readings of
  the clock: \<open>time.Now()\<close> on entry and the one inside \<open>time.Since(start)\<close>.
\<close>

definition metricsMiddleware ::
  "('x, 'u responseWriter) Handler \<Rightarrow> Time \<Rightarrow> Time \<Rightarrow> ('x, 'u) Handler" where
  "metricsMiddleware next start finish U a w r =
     (let wrapped = \<lparr>ResponseWriter = w, statusCode = 200, size_rw = 0\<rparr>;
          a = (if ContentLength r > 0
               then a\<lparr>httpRequestSize :=
                        Observe (httpRequestSize a) [URL_Path r, Method r]
                          (real_of_int (ContentLength r))\<rparr>
               else a)
      in case next (as_ResponseWriter U) a wrapped r of
           (a, wrapped) \<Rightarrow>
             (let duration = Seconds (finish - start);
                  statusCode = Itoa (statusCode wrapped);
                  a = a\<lparr>httpDuration :=
                         Observe (httpDuration a) [URL_Path r, Method r, statusCode] duration\<rparr>;
                  a = a\<lparr>httpRequests :=
                         IncVec (httpRequests a) [URL_Path r, Method r, statusCode]\<rparr>;
                  a = a\<lparr>httpResponseSize :=
                         Observe (httpResponseSize a) [URL_Path r, Method r, statusCode]
                           (real_of_int (size_rw wrapped))\<rparr>
              in (a, ResponseWriter wrapped)))"

section \<open>The transaction handlers\<close>

text \<open>The SQL texts, with the white space of the source's raw strings collapsed.\<close>

definition createTransaction_query :: string where
  "createTransaction_query =
     ''INSERT INTO transactions (value, timestamp, status, created_at) '' @
     ''VALUES ($1, $2, 'completed', CURRENT_TIMESTAMP) '' @
     ''RETURNING id, value, timestamp, status, created_at''"

definition listTransactions_query :: string where
  "listTransactions_query =
     ''SELECT id, value, timestamp, status, created_at FROM transactions '' @
     ''ORDER BY created_at DESC LIMIT $1 OFFSET $2''"

definition getTransaction_query :: string where
  "getTransaction_query =
     ''SELECT id, value, timestamp, status, created_at FROM transactions WHERE id = $1''"

text \<open>\<open>createTransaction\<close> (lines 247-283).\<close>

definition createTransaction :: "'x Env \<Rightarrow> ('x, 'w) Handler" where
  "createTransaction E W a w r =
     (case Decode E (Body r) of
        Inl err \<Rightarrow>
          (a\<lparr>txnErrorCounter := Inc (txnErrorCounter a)\<rparr>,
           http_Error W w ''Invalid request body'' StatusBadRequest)
      | Inr req \<Rightarrow>
          if req_Value req \<le> 0
          then (a\<lparr>txnErrorCounter := Inc (txnErrorCounter a)\<rparr>,
                http_Error W w ''Transaction value must be positive'' StatusBadRequest)
          else
            (case QueryRow E (db a) createTransaction_query
                    [ArgFloat (req_Value req), ArgTime (req_Timestamp req)] of
               (Inl err, x) \<Rightarrow>
                 (a\<lparr>db := x, txnErrorCounter := Inc (txnErrorCounter a)\<rparr>,
                  http_Error W w ''Internal server error'' StatusInternalServerError)
             | (Inr txn, x) \<Rightarrow>
                 (let a = a\<lparr>db := x\<rparr>;
                      a = a\<lparr>txnCounter := IncVec (txnCounter a) [''completed'']\<rparr>;
                      a = a\<lparr>txnValueSum := Add (txnValueSum a) (req_Value req)\<rparr>;
                      w = Header_Set W w ''Content-Type'' ''application/json'';
                      w = WriteHeader W w StatusCreated
                  in (a, Encode W w (Marshal_Transaction E txn)))))"

text \<open>
  The pagination parameters of \<open>listTransactions\<close> (lines 286-299): the default stays
  unless the parameter is present, parses, and is in range.
\<close>

definition list_limit :: "Request \<Rightarrow> int" where
  "list_limit r =
     (let limit = 50; l = Get (URL_Query r) ''limit''
      in if l \<noteq> []
         then (case Atoi l of
                 Some parsed \<Rightarrow> if parsed > 0 \<and> parsed \<le> 100 then parsed else limit
               | None \<Rightarrow> limit)
         else limit)"

definition list_offset :: "Request \<Rightarrow> int" where
  "list_offset r =
     (let offset = 0; ov = Get (URL_Query r) ''offset''
      in if ov \<noteq> []
         then (case Atoi ov of
                 Some parsed \<Rightarrow> if parsed \<ge> 0 then parsed else offset
               | None \<Rightarrow> offset)
         else offset)"

text \<open>
  The loop over \<open>rows.Next()\<close> (lines 315-324): a row whose \<open>Scan\<close> fails is skipped,
  any other row is appended to \<open>transactions\<close>, which starts as the nil slice. The
  handler does not call \<open>rows.Err()\<close> after the loop.
\<close>

fun scan_rows ::
  "(error + Transaction) list \<Rightarrow> Transaction list option \<Rightarrow> Transaction list option" where
  "scan_rows [] transactions = transactions"
| "scan_rows (Inl err # rows) transactions = scan_rows rows transactions"
| "scan_rows (Inr txn # rows) transactions = scan_rows rows (append_slice transactions txn)"

text \<open>\<open>listTransactions\<close> (lines 285-328).\<close>

definition listTransactions :: "'x Env \<Rightarrow> ('x, 'w) Handler" where
  "listTransactions E W a w r =
     (let limit = list_limit r; offset = list_offset r
      in case Query E (db a) listTransactions_query [ArgInt limit, ArgInt offset] of
           (Inl err, x) \<Rightarrow>
             (a\<lparr>db := x\<rparr>, http_Error W w ''Internal server error'' StatusInternalServerError)
         | (Inr rows, x) \<Rightarrow>
             (let transactions = scan_rows (rows_Next rows) None;
                  w = Header_Set W w ''Content-Type'' ''application/json''
              in (a\<lparr>db := x\<rparr>, Encode W w (Marshal_Transactions E transactions))))"

text \<open>\<open>getTransaction\<close> (lines 330-356).\<close>

definition getTransaction :: "'x Env \<Rightarrow> ('x, 'w) Handler" where
  "getTransaction E W a w r =
     (let id = Get (Vars r) ''id''
      in case QueryRow E (db a) getTransaction_query [ArgString id] of
           (Inl err, x) \<Rightarrow>
             if err = ErrNoRows
             then (a\<lparr>db := x\<rparr>, http_Error W w ''Transaction not found'' StatusNotFound)
             else (a\<lparr>db := x\<rparr>,
                   http_Error W w ''Internal server error'' StatusInternalServerError)
         | (Inr txn, x) \<Rightarrow>
             (let w = Header_Set W w ''Content-Type'' ''application/json''
              in (a\<lparr>db := x\<rparr>, Encode W w (Marshal_Transaction E txn))))"

section \<open>Handlers as sequences of writer calls\<close>

text \<open>
  What a handler does to its writer is a sequence of method calls. \<open>do_calls\<close> makes
  the calls in order and returns the results of the \<open>Write\<close> calls with the final
  writer; \<open>codes\<close> lists the status codes passed to \<open>WriteHeader\<close>.
\<close>

datatype writer_call = CallHeaderSet string string | CallWriteHeader int | CallWrite string

fun do_calls ::
  "'w http_ResponseWriter \<Rightarrow> 'w \<Rightarrow> writer_call list \<Rightarrow> (int \<times> error option) list \<times> 'w" where
  "do_calls W w [] = ([], w)"
| "do_calls W w (CallHeaderSet k v # cs) = do_calls W (Header_Set W w k v) cs"
| "do_calls W w (CallWriteHeader code # cs) = do_calls W (WriteHeader W w code) cs"
| "do_calls W w (CallWrite b # cs) =
     (case Write W w b of
        (res, w') \<Rightarrow> (case do_calls W w' cs of (rs, w'') \<Rightarrow> (res # rs, w'')))"

fun codes :: "writer_call list \<Rightarrow> int list" where
  "codes [] = []"
| "codes (CallWriteHeader code # cs) = code # codes cs"
| "codes (c # cs) = codes cs"

section \<open>An in-memory store and codec for concrete runs\<close>

text \<open>
  A small stand-in for the collaborators, used only to run the handlers on concrete
  requests: a table of rows kept in insertion order, a flag for whether the server
  can be reached, and a clock for \<open>created_at\<close>. The identifier column is an
  integer, so a lookup by a text that is not an integer is an error of the store.
\<close>

record Store =
  table :: "Transaction list"
  reachable :: bool
  clock :: Time

fun mem_QueryRow :: "Store \<Rightarrow> string \<Rightarrow> sql_arg list \<Rightarrow> (error + Transaction) \<times> Store" where
  "mem_QueryRow x q [ArgFloat v, ArgTime t] =
     (if \<not> reachable x then (Inl (Err ''connection refused''), x)
      else (let txn = \<lparr>ID = Itoa (int (length (table x)) + 1), Value = v, Timestamp = t,
                        Status = ''completed'', CreatedAt = clock x\<rparr>
            in (Inr txn, x\<lparr>table := table x @ [txn]\<rparr>)))"
| "mem_QueryRow x q [ArgString i] =
     (if \<not> reachable x then (Inl (Err ''connection refused''), x)
      else (case Atoi i of
              None \<Rightarrow> (Inl (Err ''invalid input syntax for type integer''), x)
            | Some n \<Rightarrow>
                (case find (\<lambda>t. ID t = Itoa n) (table x) of
                   None \<Rightarrow> (Inl ErrNoRows, x)
                 | Some t \<Rightarrow> (Inr t, x))))"
| "mem_QueryRow x q args = (Inl (Err ''unsupported statement''), x)"

fun mem_Query :: "Store \<Rightarrow> string \<Rightarrow> sql_arg list \<Rightarrow> (error + Rows) \<times> Store" where
  "mem_Query x q [ArgInt limit, ArgInt offset] =
     (if \<not> reachable x then (Inl (Err ''connection refused''), x)
      else (Inr \<lparr>rows_Next = map Inr (take (nat limit) (drop (nat offset) (rev (table x)))),
                 rows_Err = None\<rparr>, x))"
| "mem_Query x q args = (Inl (Err ''unsupported statement''), x)"

definition body_150 :: string where
  "body_150 = ''{'' @ field_key ''value'' @ ''150.75,'' @ field_key ''timestamp'' @
     quoted ''2025-08-20T14:30:00Z'' @ ''}''"

definition body_neg5 :: string where
  "body_neg5 = ''{'' @ field_key ''value'' @ ''-5,'' @ field_key ''timestamp'' @
     quoted ''2025-08-20T14:30:00Z'' @ ''}''"

definition body_01 :: string where
  "body_01 = ''{'' @ field_key ''value'' @ ''0.1,'' @ field_key ''timestamp'' @
     quoted ''2025-08-20T14:30:00Z'' @ ''}''"

definition body_02 :: string where
  "body_02 = ''{'' @ field_key ''value'' @ ''0.2,'' @ field_key ''timestamp'' @
     quoted ''2025-08-20T14:30:00Z'' @ ''}''"

text \<open>
  The decoder of the stand-in knows the four request bodies above; anything else is
  malformed. The literals \<open>0.1\<close> and \<open>0.2\<close> decode to the nearest \<open>float64\<close> values,
  \<open>3602879701896397 / 2 ^ 55\<close> and \<open>3602879701896397 / 2 ^ 54\<close>; 150.75 and -5 are
  \<open>float64\<close> values themselves.
\<close>

definition mem_Decode :: "string \<Rightarrow> error + TransactionRequest" where
  "mem_Decode b =
     (if b = body_150
      then Inr \<lparr>req_Value = 150.75, req_Timestamp = 1755700200000000000\<rparr>
      else if b = body_neg5
      then Inr \<lparr>req_Value = - 5, req_Timestamp = 1755700200000000000\<rparr>
      else if b = body_01
      then Inr \<lparr>req_Value = 3602879701896397 / 36028797018963968,
                 req_Timestamp = 1755700200000000000\<rparr>
      else if b = body_02
      then Inr \<lparr>req_Value = 3602879701896397 / 18014398509481984,
                 req_Timestamp = 1755700200000000000\<rparr>
      else Inl (Err ''invalid character''))"

definition mem_env :: "Store Env" where
  "mem_env =
     \<lparr>Decode = mem_Decode, QueryRow = mem_QueryRow, Query = mem_Query,
      enc_string = quoted,
      enc_float = (\<lambda>v. if v = 150.75 then ''150.75'' else ''0''),
      enc_time = (\<lambda>t. quoted (Itoa t))\<rparr>"

definition empty_store :: Store where
  "empty_store = \<lparr>table = [], reachable = True, clock = 1755700201000000000\<rparr>"

definition txn_1 :: Transaction where
  "txn_1 = \<lparr>ID = ''1'', Value = 150.75, Timestamp = 1755700200000000000,
             Status = ''completed'', CreatedAt = 1755700201000000000\<rparr>"

definition one_row_store :: Store where
  "one_row_store = \<lparr>table = [txn_1], reachable = True, clock = 1755700202000000000\<rparr>"

definition down_store :: Store where
  "down_store = \<lparr>table = [], reachable = False, clock = 1755700201000000000\<rparr>"

text \<open>The application after \<open>initMetrics\<close>, on a given store.\<close>

definition zero_App :: "'x \<Rightarrow> 'x App" where
  "zero_App x =
     \<lparr>db = x,
      httpDuration = \<lparr>hv_name = [], hv_labels = [], hv_buckets = [], hv_obs = (\<lambda>_. [])\<rparr>,
      httpRequests = \<lparr>cv_name = [], cv_labels = [], cv_val = (\<lambda>_. 0)\<rparr>,
      txnCounter = \<lparr>cv_name = [], cv_labels = [], cv_val = (\<lambda>_. 0)\<rparr>,
      txnValueSum = \<lparr>g_name = [], g_val = Finite 0\<rparr>,
      txnErrorCounter = \<lparr>c_name = [], c_val = 0\<rparr>,
      httpRequestSize = \<lparr>hv_name = [], hv_labels = [], hv_buckets = [], hv_obs = (\<lambda>_. [])\<rparr>,
      httpResponseSize = \<lparr>hv_name = [], hv_labels = [], hv_buckets = [], hv_obs = (\<lambda>_. [])\<rparr>\<rparr>"

definition start_App :: "'x \<Rightarrow> 'x App" where
  "start_App x = (case initMetrics (zero_App x) of Some a \<Rightarrow> a | None \<Rightarrow> zero_App x)"

text \<open>
  A store whose answer to the list query breaks off: one row arrives, then the
  connection is lost and \<open>rows.Next()\<close> returns false with an error in \<open>rows.Err()\<close>.
\<close>

definition broken_Query :: "Store \<Rightarrow> string \<Rightarrow> sql_arg list \<Rightarrow> (error + Rows) \<times> Store" where
  "broken_Query x q args =
     (Inr \<lparr>rows_Next = [Inr txn_1], rows_Err = Some (Err ''connection reset by peer'')\<rparr>, x)"

definition broken_stream_env :: "Store Env" where
  "broken_stream_env = mem_env\<lparr>Query := broken_Query\<rparr>"

definition post_request :: "string \<Rightarrow> Request" where
  "post_request b =
     \<lparr>Method = ''POST'', URL_Path = ''/transactions'', URL_Query = [], Vars = [],
      ContentLength = int (length b), Body = b\<rparr>"

definition list_request :: "(string \<times> string) list \<Rightarrow> Request" where
  "list_request q =
     \<lparr>Method = ''GET'', URL_Path = ''/transactions'', URL_Query = q, Vars = [],
      ContentLength = 0, Body = []\<rparr>"

definition get_request :: "string \<Rightarrow> Request" where
  "get_request i =
     \<lparr>Method = ''GET'', URL_Path = ''/transactions/'' @ i, URL_Query = [],
      Vars = [(''id'', i)], ContentLength = 0, Body = []\<rparr>"

text \<open>The application after one Create with value 0.1 on an empty table.\<close>

definition after_01 :: "Store App" where
  "after_01 =
     fst (createTransaction mem_env Recorder (start_App empty_store) NewRecorder
            (post_request body_01))"

section \<open>Facts about the model\<close>

lemmas rec_defs = Recorder_def NewRecorder_def rec_Header_Set_def rec_WriteHeader_def rec_Write_def

lemmas mem_defs = mem_env_def mem_Decode_def empty_store_def down_store_def one_row_store_def
  txn_1_def body_150_def body_neg5_def body_01_def body_02_def quoted_def field_key_def

lemma start_App_sel:
  "db (start_App x) = x"
  "cv_val (httpRequests (start_App x)) = (\<lambda>_. 0)"
  "cv_val (txnCounter (start_App x)) = (\<lambda>_. 0)"
  "g_val (txnValueSum (start_App x)) = Finite 0"
  "c_val (txnErrorCounter (start_App x)) = 0"
  "hv_obs (httpDuration (start_App x)) = (\<lambda>_. [])"
  "hv_obs (httpRequestSize (start_App x)) = (\<lambda>_. [])"
  "hv_obs (httpResponseSize (start_App x)) = (\<lambda>_. [])"
  by (simp_all add: start_App_def initMetrics_def zero_App_def ExponentialBuckets_def
      eval_nat_numeral NewHistogramVec_def NewCounterVec_def NewGauge_def NewCounter_def Let_def)

text \<open>
  Rounding to \<open>float64\<close>: the chosen integer is a nearest one, so a finite result is
  within half a spacing of the exact value. Then some values: 150.75 and the
  \<open>float64\<close> nearest to 0.1 are kept; the exact sum of the \<open>float64\<close> values nearest
  to 0.1 and 0.2 lies halfway between two \<open>float64\<close> values and is rounded up;
  \<open>10 ^ 16 + 1\<close> is rounded down to \<open>10 ^ 16\<close>.
\<close>

lemma round_half_even_nearest: "\<bar>of_int (round_half_even q) - q\<bar> \<le> 1 / 2"
  unfolding round_half_even_def Let_def by (simp split: if_splits)

lemma pow2_pos: "0 < pow2 k"
  by (simp add: pow2_def)

lemma round_mag_error: "\<bar>round_mag ay - ay\<bar> \<le> pow2 (binade ay - 52) / 2"
proof -
  let ?u = "pow2 (binade ay - 52)"
  have "round_mag ay - ay = (of_int (round_half_even (ay / ?u)) - ay / ?u) * ?u"
    using pow2_pos [of "binade ay - 52"] by (simp add: round_mag_def Let_def field_simps)
  then have "\<bar>round_mag ay - ay\<bar> = \<bar>of_int (round_half_even (ay / ?u)) - ay / ?u\<bar> * ?u"
    using pow2_pos [of "binade ay - 52"] by (simp add: abs_mult)
  also have "\<dots> \<le> 1 / 2 * ?u"
    using round_half_even_nearest [of "ay / ?u"] pow2_pos [of "binade ay - 52"]
    by (simp add: mult_right_mono)
  finally show ?thesis by simp
qed

lemma round64_error:
  assumes "round64 y = Finite r"
  shows "\<bar>r - y\<bar> \<le> pow2 (binade \<bar>y\<bar> - 52) / 2"
proof (cases "y = 0")
  case True
  with assms show ?thesis
    using pow2_pos [of "binade \<bar>y\<bar> - 52"] by (simp add: round64_def)
next
  case False
  with assms have r: "r = (if y < 0 then - round_mag \<bar>y\<bar> else round_mag \<bar>y\<bar>)"
    by (simp add: round64_def Let_def split: if_splits)
  show ?thesis
  proof (cases "y < 0")
    case True
    then have "\<bar>r - y\<bar> = \<bar>round_mag \<bar>y\<bar> - \<bar>y\<bar>\<bar>"
      by (simp add: r)
    then show ?thesis
      using round_mag_error [of "\<bar>y\<bar>"] by simp
  next
    case False
    then have "\<bar>r - y\<bar> = \<bar>round_mag \<bar>y\<bar> - \<bar>y\<bar>\<bar>"
      by (simp add: r)
    then show ?thesis
      using round_mag_error [of "\<bar>y\<bar>"] by simp
  qed
qed

text \<open>
  \<open>binade\<close> is the binary exponent: for a number in the range of the normal
  \<open>float64\<close> values, \<open>2 ^ binade x \<le> x < 2 ^ (binade x + 1)\<close>.
\<close>

lemma pow2_powi: "pow2 k = 2 powi k"
  by (simp add: pow2_def power_int_def inverse_eq_divide power_one_over)

lemma pow2_succ: "pow2 (k + 1) = 2 * pow2 k"
  by (simp add: pow2_powi power_int_add)

lemma exp_up_bounds:
  "1 \<le> x \<Longrightarrow> e \<le> 1024 \<Longrightarrow>
     e \<le> exp_up x e \<and> exp_up x e \<le> 1024 \<and> pow2 (exp_up x e - e) \<le> x
     \<and> (exp_up x e < 1024 \<longrightarrow> x < pow2 (exp_up x e - e + 1))"
proof (induction x e rule: exp_up.induct)
  case (1 x e)
  show ?case
  proof (cases "x < 2 \<or> 1024 \<le> e")
    case True
    with "1.prems" show ?thesis
      by (subst (1 2 3 4 5) exp_up.simps) (auto simp add: pow2_def)
  next
    case False
    then have step: "exp_up x e = exp_up (x / 2) (e + 1)"
      by (subst exp_up.simps) simp
    from False "1.prems" have "1 \<le> x / 2" "e + 1 \<le> 1024"
      by simp_all
    from "1.IH" [OF False this]
    have ih: "e + 1 \<le> exp_up x e" "exp_up x e \<le> 1024"
      "pow2 (exp_up x e - (e + 1)) \<le> x / 2"
      "exp_up x e < 1024 \<longrightarrow> x / 2 < pow2 (exp_up x e - (e + 1) + 1)"
      by (simp_all add: step)
    have "pow2 (exp_up x e - e) = 2 * pow2 (exp_up x e - (e + 1))"
      using pow2_succ [of "exp_up x e - (e + 1)"] by simp
    moreover have "pow2 (exp_up x e - e + 1) = 2 * pow2 (exp_up x e - (e + 1) + 1)"
      using pow2_succ [of "exp_up x e - (e + 1) + 1"] by (simp add: algebra_simps)
    ultimately show ?thesis
      using ih by auto
  qed
qed

lemma exp_down_bounds:
  "0 < x \<Longrightarrow> x < 2 \<Longrightarrow> - 1022 \<le> e \<Longrightarrow>
     exp_down x e \<le> e \<and> - 1022 \<le> exp_down x e \<and> x < pow2 (exp_down x e - e + 1)
     \<and> (- 1022 < exp_down x e \<longrightarrow> pow2 (exp_down x e - e) \<le> x)"
proof (induction x e rule: exp_down.induct)
  case (1 x e)
  show ?case
  proof (cases "1 \<le> x \<or> e \<le> - 1022")
    case True
    with "1.prems" show ?thesis
      by (subst (1 2 3 4 5) exp_down.simps) (auto simp add: pow2_def)
  next
    case False
    then have step: "exp_down x e = exp_down (x * 2) (e - 1)"
      by (subst exp_down.simps) simp
    from False "1.prems" have "0 < x * 2" "x * 2 < 2" "- 1022 \<le> e - 1"
      by simp_all
    from "1.IH" [OF False this]
    have ih: "exp_down x e \<le> e - 1" "- 1022 \<le> exp_down x e"
      "x * 2 < pow2 (exp_down x e - (e - 1) + 1)"
      "- 1022 < exp_down x e \<longrightarrow> pow2 (exp_down x e - (e - 1)) \<le> x * 2"
      by (simp_all add: step)
    have "pow2 (exp_down x e - (e - 1) + 1) = 2 * pow2 (exp_down x e - e + 1)"
      using pow2_succ [of "exp_down x e - e + 1"] by (simp add: algebra_simps)
    moreover have "pow2 (exp_down x e - (e - 1)) = 2 * pow2 (exp_down x e - e)"
      using pow2_succ [of "exp_down x e - e"] by (simp add: algebra_simps)
    ultimately show ?thesis
      using ih by auto
  qed
qed

lemma binade_bounds:
  assumes "pow2 (- 1022) \<le> x" and "x < pow2 1024"
  shows "pow2 (binade x) \<le> x \<and> x < pow2 (binade x + 1)"
proof (cases "1 \<le> x")
  case True
  from exp_up_bounds [OF True, of 0]
  have b: "exp_up x 0 \<le> 1024" "pow2 (exp_up x 0) \<le> x"
    "exp_up x 0 < 1024 \<longrightarrow> x < pow2 (exp_up x 0 + 1)"
    by simp_all
  have "exp_up x 0 \<noteq> 1024"
    using b(2) assms(2) by auto
  with b True show ?thesis
    by (simp add: binade_def)
next
  case False
  have pos: "0 < x"
    using assms(1) by (rule less_le_trans [OF pow2_pos])
  from False have "x < 2" by simp
  from exp_down_bounds [OF pos this, of 0]
  have b: "- 1022 \<le> exp_down x 0" "x < pow2 (exp_down x 0 + 1)"
    "- 1022 < exp_down x 0 \<longrightarrow> pow2 (exp_down x 0) \<le> x"
    by simp_all
  have "pow2 (exp_down x 0) \<le> x"
  proof (cases "exp_down x 0 = - 1022")
    case True
    with assms(1) show ?thesis by simp
  next
    case False
    with b show ?thesis by simp
  qed
  with b False show ?thesis
    by (simp add: binade_def)
qed

lemma binade_150_75: "binade (603 / 4) = 7"
  by (simp add: binade_def exp_up.simps)

lemma round_mag_150_75: "round_mag (603 / 4) = 603 / 4"
  by (simp add: round_mag_def binade_150_75 pow2_def round_half_even_def Let_def)

lemma round64_150_75: "round64 (603 / 4) = Finite (603 / 4)"
  by (simp add: round64_def round_mag_150_75 pow2_def)

lemma binade_01: "binade (3602879701896397 / 36028797018963968) = - 4"
  by (simp add: binade_def exp_down.simps)

lemma round_mag_01:
  "round_mag (3602879701896397 / 36028797018963968) = 3602879701896397 / 36028797018963968"
  by (simp add: round_mag_def binade_01 pow2_def round_half_even_def Let_def)

lemma round64_01:
  "round64 (3602879701896397 / 36028797018963968)
     = Finite (3602879701896397 / 36028797018963968)"
  by (simp add: round64_def round_mag_01 pow2_def)

lemma binade_03: "binade (10808639105689191 / 36028797018963968) = - 2"
  by (simp add: binade_def exp_down.simps)

lemma round_mag_03:
  "round_mag (10808639105689191 / 36028797018963968) = 1351079888211149 / 4503599627370496"
  by (simp add: round_mag_def binade_03 pow2_def round_half_even_def Let_def)

lemma round64_03:
  "round64 (10808639105689191 / 36028797018963968)
     = Finite (1351079888211149 / 4503599627370496)"
  by (simp add: round64_def round_mag_03 pow2_def)

lemma binade_1e16: "binade 10000000000000001 = 53"
  by (simp add: binade_def exp_up.simps)

lemma round_mag_1e16: "round_mag 10000000000000001 = 10000000000000000"
  by (simp add: round_mag_def binade_1e16 pow2_def round_half_even_def Let_def)

lemma round64_1e16: "float64_add (Finite (10 ^ 16)) 1 = Finite (10 ^ 16)"
  by (simp add: float64_add_def round64_def round_mag_1e16 pow2_def)

lemma Itoa_2: "Itoa 2 = ''2''"
  by (simp add: Itoa_def utoa.simps digit_char_def)

lemma utoa_nonempty: "utoa n \<noteq> []"
  by (subst utoa.simps) simp

lemma Itoa_nonempty: "Itoa i \<noteq> []"
  by (simp add: Itoa_def utoa_nonempty)

lemma Itoa_1: "Itoa 1 = ''1''"
  by (simp add: Itoa_def utoa.simps digit_char_def)

lemma Itoa_200: "Itoa 200 = ''200''"
  by (simp add: Itoa_def utoa.simps digit_char_def)

lemma Itoa_404: "Itoa 404 = ''404''"
  by (simp add: Itoa_def utoa.simps digit_char_def)

lemma Atoi_empty: "Atoi [] = None"
  by (simp add: Atoi_def)

lemma Atoi_1: "Atoi ''1'' = Some 1"
  by (simp add: Atoi_def digit_val_def)

lemma ExponentialBuckets_100_10_5:
  "ExponentialBuckets 100 10 5 = Some [100, 1000, 10000, 100000, 1000000]"
  by (simp add: ExponentialBuckets_def eval_nat_numeral)

lemma as_ResponseWriter_sel:
  "Header_Set (as_ResponseWriter U) = responseWriter_Header_Set U"
  "WriteHeader (as_ResponseWriter U) = responseWriter_WriteHeader U"
  "Write (as_ResponseWriter U) = responseWriter_Write U"
  by (simp_all add: as_ResponseWriter_def)

text \<open>
  A sequence of calls on the decorating writer, in terms of the same calls on the
  writer it embeds.
\<close>

lemma do_calls_wrapped:
  "do_calls (as_ResponseWriter U) rw cs =
     (fst (do_calls U (ResponseWriter rw) cs),
      \<lparr>ResponseWriter = snd (do_calls U (ResponseWriter rw) cs),
       statusCode = last (statusCode rw # codes cs),
       size_rw = size_rw rw + sum_list (map fst (fst (do_calls U (ResponseWriter rw) cs)))\<rparr>)"
proof (induction cs arbitrary: rw)
  case Nil
  then show ?case by simp
next
  case (Cons c cs)
  show ?case
  proof (cases c)
    case (CallHeaderSet k v)
    then show ?thesis
      by (simp add: Cons.IH as_ResponseWriter_sel responseWriter_Header_Set_def)
  next
    case (CallWriteHeader code)
    then show ?thesis
      by (simp add: Cons.IH as_ResponseWriter_sel responseWriter_WriteHeader_def Let_def)
  next
    case (CallWrite b)
    then show ?thesis
      by (simp add: Cons.IH as_ResponseWriter_sel responseWriter_Write_def add.assoc
          split: prod.splits)
  qed
qed

text \<open>\<open>http.Error\<close> as a sequence of calls, on the recorder, and through the decorating writer.\<close>

lemma http_Error_calls:
  "http_Error W w msg code =
     snd (do_calls W w
       [CallHeaderSet ''Content-Type'' ''text/plain; charset=utf-8'',
        CallHeaderSet ''X-Content-Type-Options'' ''nosniff'',
        CallWriteHeader code, CallWrite (msg @ [CHR 0x0A])])"
  by (simp add: http_Error_def Let_def split: prod.splits)

lemma http_Error_Recorder:
  "Code (http_Error Recorder NewRecorder msg code) = code"
  "RespBody (http_Error Recorder NewRecorder msg code) = msg @ [CHR 0x0A]"
  by (simp_all add: http_Error_def rec_defs Let_def)

lemma http_Error_statusCode:
  "statusCode (http_Error (as_ResponseWriter U) rw msg code) = code"
  by (simp only: http_Error_calls do_calls_wrapped snd_conv) simp

lemma Encode_Recorder:
  "Code (Encode Recorder (Header_Set Recorder NewRecorder k v) b) = 200"
  "RespBody (Encode Recorder (Header_Set Recorder NewRecorder k v) b) = b @ [CHR 0x0A]"
  "HeaderMap (Encode Recorder (Header_Set Recorder NewRecorder k v) b) k = Some v"
  by (simp_all add: Encode_def rec_defs Let_def)

lemma list_limit_range: "0 < list_limit r \<and> list_limit r \<le> 100"
  by (simp add: list_limit_def Let_def split: option.splits)

lemma list_offset_range: "0 \<le> list_offset r"
  by (simp add: list_offset_def Let_def split: option.splits)

lemma Atoi_500: "Atoi ''500'' = Some 500"
  by (simp add: Atoi_def digit_val_def)

lemma Atoi_50: "Atoi ''50'' = Some 50"
  by (simp add: Atoi_def digit_val_def)

lemma Atoi_999999: "Atoi ''999999'' = Some 999999"
  by (simp add: Atoi_def digit_val_def)

lemma mem_absent:
  "QueryRow mem_env (db (start_App empty_store)) getTransaction_query
     [ArgString (Get (Vars (get_request ''999999'')) ''id'')] = (Inl ErrNoRows, empty_store)"
  by (simp add: mem_env_def start_App_sel get_request_def Get_def Atoi_999999 empty_store_def)

lemma getTransaction_absent:
  assumes "QueryRow E (db a) getTransaction_query [ArgString (Get (Vars r) ''id'')]
             = (Inl ErrNoRows, x)"
  shows "getTransaction E W a w r = (a\<lparr>db := x\<rparr>, http_Error W w ''Transaction not found'' 404)"
  using assms by (simp add: getTransaction_def Let_def)

lemma get_request_sel:
  "Method (get_request i) = ''GET''"
  "URL_Path (get_request i) = ''/transactions/'' @ i"
  "ContentLength (get_request i) = 0"
  "Vars (get_request i) = [(''id'', i)]"
  by (simp_all add: get_request_def)

text \<open>
  The slice built by the row loop stays nil exactly when no row could be scanned.
\<close>

lemma scan_rows_all_fail: "scan_rows (map Inl errs) transactions = transactions"
  by (induction errs) simp_all

lemma scan_rows_Some: "\<exists>ts'. scan_rows rows (Some ts) = Some ts'"
  by (induction rows "Some ts" arbitrary: ts rule: scan_rows.induct)
    (simp_all add: append_slice_def)

lemma scan_rows_nil_iff: "scan_rows rows None = None \<longleftrightarrow> (\<forall>r \<in> set rows. isl r)"
proof (induction rows)
  case Nil
  then show ?case by simp
next
  case (Cons r rows)
  show ?case
  proof (cases r)
    case (Inl e)
    with Cons show ?thesis by simp
  next
    case (Inr t)
    obtain ts' where "scan_rows rows (Some [t]) = Some ts'"
      using scan_rows_Some by blast
    with Inr show ?thesis by (simp add: append_slice_def)
  qed
qed

text \<open>The state after a Create that reaches the store.\<close>

lemma createTransaction_inserted:
  assumes "Decode E (Body r) = Inr req"
    and "0 < req_Value req"
    and "QueryRow E (db a) createTransaction_query
           [ArgFloat (req_Value req), ArgTime (req_Timestamp req)] = (Inr txn, x)"
  shows "fst (createTransaction E W a w r)
     = a\<lparr>db := x, txnCounter := IncVec (txnCounter a) [''completed''],
          txnValueSum := Add (txnValueSum a) (req_Value req)\<rparr>"
  using assms by (simp add: createTransaction_def Let_def)

lemma mem_Decode_01:
  "Decode mem_env (Body (post_request body_01))
     = Inr \<lparr>req_Value = 3602879701896397 / 36028797018963968,
            req_Timestamp = 1755700200000000000\<rparr>"
  by (simp add: mem_env_def mem_Decode_def post_request_def body_01_def body_150_def
      body_neg5_def field_key_def quoted_def)

lemma mem_Decode_02:
  "Decode mem_env (Body (post_request body_02))
     = Inr \<lparr>req_Value = 3602879701896397 / 18014398509481984,
            req_Timestamp = 1755700200000000000\<rparr>"
  by (simp add: mem_env_def mem_Decode_def post_request_def body_01_def body_02_def
      body_150_def body_neg5_def field_key_def quoted_def)

lemma after_01_sel:
  "g_val (txnValueSum after_01) = Finite (3602879701896397 / 36028797018963968)"
  "db after_01
     = \<lparr>table = [\<lparr>ID = ''1'', Value = 3602879701896397 / 36028797018963968,
                   Timestamp = 1755700200000000000, Status = ''completed'',
                   CreatedAt = 1755700201000000000\<rparr>],
        reachable = True, clock = 1755700201000000000\<rparr>"
proof -
  let ?req = "\<lparr>req_Value = 3602879701896397 / 36028797018963968,
               req_Timestamp = 1755700200000000000\<rparr>"
  let ?txn = "\<lparr>ID = ''1'', Value = 3602879701896397 / 36028797018963968,
               Timestamp = 1755700200000000000, Status = ''completed'',
               CreatedAt = 1755700201000000000\<rparr>"
  have positive: "0 < req_Value ?req"
    by simp
  have inserted: "QueryRow mem_env (db (start_App empty_store)) createTransaction_query
      [ArgFloat (req_Value ?req), ArgTime (req_Timestamp ?req)]
      = (Inr ?txn, empty_store\<lparr>table := [?txn]\<rparr>)"
    by (simp add: mem_env_def start_App_sel empty_store_def Itoa_1 Let_def)
  note state = createTransaction_inserted [OF mem_Decode_01 positive inserted,
      of Recorder NewRecorder, folded after_01_def]
  show "g_val (txnValueSum after_01) = Finite (3602879701896397 / 36028797018963968)"
    by (simp add: state Add_def start_App_sel float64_add_def round64_01)
  show "db after_01
     = \<lparr>table = [?txn], reachable = True, clock = 1755700201000000000\<rparr>"
    by (simp add: state empty_store_def)
qed

section \<open>The decorating response writer (C4)\<close>

text \<open>
  C4, as stated: when the handler calls \<open>WriteHeader\<close> more than once, the decorating
  writer has recorded the first status code. It has not: \<open>WriteHeader\<close> overwrites
  \<open>statusCode\<close> on every call. After \<open>WriteHeader(404)\<close> and \<open>WriteHeader(500)\<close> the
  recorded code is not 404.
\<close>

theorem responseWriter_first_status_counterexample:
  "statusCode (snd (do_calls (as_ResponseWriter Recorder)
      \<lparr>ResponseWriter = NewRecorder, statusCode = 200, size_rw = 0\<rparr>
      [CallWriteHeader 404, CallWriteHeader 500])) \<noteq> 404"
  by (simp add: as_ResponseWriter_sel responseWriter_WriteHeader_def Let_def)

text \<open>
  C4, amended: for every underlying writer and every sequence of calls made on the
  decorating writer, each \<open>Write\<close> returns what the underlying writer returned for it,
  the underlying writer ends in the state the same calls made directly on it would
  leave, \<open>size\<close> has grown by the sum of the byte counts the underlying writer
  returned, and \<open>statusCode\<close> is the code of the last \<open>WriteHeader\<close> call (unchanged
  when there was none).
\<close>

theorem responseWriter_records_last_status:
  "fst (do_calls (as_ResponseWriter U) rw cs) = fst (do_calls U (ResponseWriter rw) cs)
   \<and> ResponseWriter (snd (do_calls (as_ResponseWriter U) rw cs))
       = snd (do_calls U (ResponseWriter rw) cs)
   \<and> size_rw (snd (do_calls (as_ResponseWriter U) rw cs))
       = size_rw rw + sum_list (map fst (fst (do_calls U (ResponseWriter rw) cs)))
   \<and> statusCode (snd (do_calls (as_ResponseWriter U) rw cs))
       = last (statusCode rw # codes cs)"
  by (simp add: do_calls_wrapped)

section \<open>Histogram buckets (C9)\<close>

text \<open>
  C9, as stated: all three histograms have the boundaries 100, 1000, 10000, 100000,
  1000000. The duration histogram is created without \<open>Buckets\<close> and so does not.
\<close>

theorem duration_buckets_counterexample:
  "map_option (hv_buckets \<circ> httpDuration) (initMetrics (zero_App empty_store))
     \<noteq> Some [100, 1000, 10000, 100000, 1000000]"
  by (simp add: initMetrics_def ExponentialBuckets_100_10_5 NewHistogramVec_def Let_def
      DefBuckets_def)

text \<open>
  C9, amended: \<open>initMetrics\<close> returns (the two \<open>ExponentialBuckets\<close> calls do not
  panic); \<open>http_request_size_bytes\<close> and \<open>http_response_size_bytes\<close> have exactly
  the boundaries 100, 1000, 10000, 100000, 1000000; \<open>http_request_duration_seconds\<close>
  has the default boundaries of the client library.
\<close>

theorem initMetrics_buckets:
  "\<exists>a'. initMetrics a = Some a'
     \<and> hv_buckets (httpRequestSize a') = [100, 1000, 10000, 100000, 1000000]
     \<and> hv_buckets (httpResponseSize a') = [100, 1000, 10000, 100000, 1000000]
     \<and> hv_buckets (httpDuration a') = DefBuckets"
  by (simp add: initMetrics_def ExponentialBuckets_100_10_5 NewHistogramVec_def Let_def)

section \<open>The middleware's three recordings (C1)\<close>

text \<open>
  C1: let handler \<open>h\<close> return, from the state the middleware hands it, the state \<open>a1\<close>
  and the decorating writer \<open>rw1\<close>. What the middleware then adds is exactly one
  increment of \<open>http_requests_total\<close>, one observation of
  \<open>http_request_duration_seconds\<close> and one observation of
  \<open>http_response_size_bytes\<close>, all at the label tuple (path, method,
  \<open>Itoa (statusCode rw1)\<close>), and nothing at any other tuple. The status label is never
  empty, and it is \<open>200\<close> whenever what the handler did to its writer is a sequence of
  calls without \<open>WriteHeader\<close>.
\<close>

theorem metricsMiddleware_records_once:
  "case h (as_ResponseWriter U)
          (if ContentLength r > 0
           then a\<lparr>httpRequestSize :=
                    Observe (httpRequestSize a) [URL_Path r, Method r]
                      (real_of_int (ContentLength r))\<rparr>
           else a)
          \<lparr>ResponseWriter = w, statusCode = 200, size_rw = 0\<rparr> r of
     (a1, rw1) \<Rightarrow>
       (let a' = fst (metricsMiddleware h start finish U a w r);
            lbl = [URL_Path r, Method r, Itoa (statusCode rw1)]
        in (\<forall>l. cv_val (httpRequests a') l
                  = cv_val (httpRequests a1) l + (if l = lbl then 1 else 0))
         \<and> (\<forall>l. hv_obs (httpDuration a') l
                  = hv_obs (httpDuration a1) l
                    @ (if l = lbl then [Seconds (finish - start)] else []))
         \<and> (\<forall>l. hv_obs (httpResponseSize a') l
                  = hv_obs (httpResponseSize a1) l
                    @ (if l = lbl then [real_of_int (size_rw rw1)] else []))
         \<and> Itoa (statusCode rw1) \<noteq> []
         \<and> (\<forall>cs. rw1 = snd (do_calls (as_ResponseWriter U)
                              \<lparr>ResponseWriter = w, statusCode = 200, size_rw = 0\<rparr> cs)
                   \<and> codes cs = []
                \<longrightarrow> Itoa (statusCode rw1) = ''200''))"
  by (auto simp add: metricsMiddleware_def Let_def Observe_def IncVec_def Itoa_nonempty
      do_calls_wrapped Itoa_200 split: prod.splits)

text \<open>
  A run: \<open>GET /transactions/1\<close> on a store that holds row 1. \<open>getTransaction\<close> sets
  a header field and writes the body, without \<open>WriteHeader\<close>; the request is counted
  once, under status \<open>200\<close>.
\<close>

theorem metricsMiddleware_records_once_witness:
  "codes [CallHeaderSet ''Content-Type'' ''application/json'',
          CallWrite (Marshal_Transaction mem_env txn_1 @ [CHR 0x0A])] = []
   \<and> Itoa (statusCode (snd (getTransaction mem_env (as_ResponseWriter Recorder)
        (start_App one_row_store)
        \<lparr>ResponseWriter = NewRecorder, statusCode = 200, size_rw = 0\<rparr>
        (get_request ''1'')))) = ''200''
   \<and> cv_val (httpRequests (fst (metricsMiddleware (getTransaction mem_env) 0 5000000
        Recorder (start_App one_row_store) NewRecorder (get_request ''1''))))
        [''/transactions/1'', ''GET'', ''200''] = 1"
proof -
  let ?w0 = "\<lparr>ResponseWriter = NewRecorder, statusCode = 200, size_rw = 0\<rparr>"
  let ?cs = "[CallHeaderSet ''Content-Type'' ''application/json'',
              CallWrite (Marshal_Transaction mem_env txn_1 @ [CHR 0x0A])]"
  let ?a = "start_App one_row_store"
  let ?r = "get_request ''1''"
  let ?rw1 = "snd (do_calls (as_ResponseWriter Recorder) ?w0 ?cs)"
  have run: "getTransaction mem_env (as_ResponseWriter Recorder) ?a ?w0 ?r = (?a, ?rw1)"
    by (simp add: getTransaction_def get_request_def Get_def mem_env_def one_row_store_def
        txn_1_def start_App_sel Atoi_1 Itoa_1 Encode_def Let_def split: prod.splits)
  have no_length: "\<not> 0 < ContentLength ?r"
    by (simp add: get_request_def)
  have no_code: "codes ?cs = []"
    by simp
  have path: "URL_Path ?r = ''/transactions/1''" and verb: "Method ?r = ''GET''"
    by (simp_all add: get_request_def)
  note fact = metricsMiddleware_records_once
      [where h = "getTransaction mem_env" and U = Recorder and r = ?r and a = ?a
        and w = NewRecorder and start = 0 and finish = 5000000,
        unfolded if_not_P [OF no_length] run prod.case Let_def path verb]
  from fact have default: "Itoa (statusCode ?rw1) = ''200''"
    using no_code by blast
  from fact have
    "cv_val (httpRequests (fst (metricsMiddleware (getTransaction mem_env) 0 5000000
        Recorder ?a NewRecorder ?r))) [''/transactions/1'', ''GET'', Itoa (statusCode ?rw1)]
     = cv_val (httpRequests ?a) [''/transactions/1'', ''GET'', Itoa (statusCode ?rw1)] + 1"
    by simp
  then have count: "cv_val (httpRequests (fst (metricsMiddleware (getTransaction mem_env) 0
        5000000 Recorder ?a NewRecorder ?r))) [''/transactions/1'', ''GET'', ''200''] = 1"
    unfolding default by (simp add: start_App_sel)
  show ?thesis
    using no_code default count unfolding run by simp
qed

section \<open>Create (C2, C3)\<close>

text \<open>
  C2, as stated: a successful Create increases \<open>transactions_value_sum\<close> by exactly
  the submitted value. The gauge adds in \<open>float64\<close>. After a Create with value 0.1 the
  gauge holds the \<open>float64\<close> nearest to 0.1; a second Create, with value 0.2, does not
  leave it at the sum of the two.
\<close>

theorem createTransaction_gauge_counterexample:
  "g_val (txnValueSum after_01) = Finite (3602879701896397 / 36028797018963968)
   \<and> Decode mem_env (Body (post_request body_02))
       = Inr \<lparr>req_Value = 3602879701896397 / 18014398509481984,
              req_Timestamp = 1755700200000000000\<rparr>
   \<and> Code (snd (createTransaction mem_env Recorder after_01 NewRecorder
        (post_request body_02))) = 201
   \<and> g_val (txnValueSum (fst (createTransaction mem_env Recorder after_01 NewRecorder
        (post_request body_02))))
       \<noteq> Finite (3602879701896397 / 36028797018963968
                 + 3602879701896397 / 18014398509481984)"
proof -
  let ?req = "\<lparr>req_Value = 3602879701896397 / 18014398509481984,
               req_Timestamp = 1755700200000000000\<rparr>"
  let ?txn = "\<lparr>ID = ''2'', Value = 3602879701896397 / 18014398509481984,
               Timestamp = 1755700200000000000, Status = ''completed'',
               CreatedAt = 1755700201000000000\<rparr>"
  have positive: "0 < req_Value ?req"
    by simp
  have inserted: "QueryRow mem_env (db after_01) createTransaction_query
      [ArgFloat (req_Value ?req), ArgTime (req_Timestamp ?req)]
      = (Inr ?txn, (db after_01)\<lparr>table := table (db after_01) @ [?txn]\<rparr>)"
    by (simp add: mem_env_def after_01_sel Itoa_2 Let_def)
  note state = createTransaction_inserted [OF mem_Decode_02 positive inserted,
      of Recorder NewRecorder]
  have created: "Code (snd (createTransaction mem_env Recorder after_01 NewRecorder
        (post_request body_02))) = 201"
    using mem_Decode_02 inserted
    by (simp add: createTransaction_def Let_def Encode_def rec_defs)
  have "g_val (txnValueSum (fst (createTransaction mem_env Recorder after_01 NewRecorder
        (post_request body_02)))) = Finite (1351079888211149 / 4503599627370496)"
    by (simp add: state Add_def after_01_sel float64_add_def round64_03)
  then show ?thesis
    using mem_Decode_02 created by (simp add: after_01_sel)
qed

text \<open>
  C2, amended: when the body decodes to a request with a positive value and the insert
  returns the row \<open>txn\<close>, \<open>createTransaction\<close> adds one to \<open>transactions_total\<close> at the
  label \<open>completed\<close> and to no other label, makes one \<open>float64\<close> addition of the
  submitted value to \<open>transactions_value_sum\<close> (the new value is the exact sum rounded
  to the nearest \<open>float64\<close>), and the client receives status 201, content type
  \<open>application/json\<close> and the five fields of \<open>txn\<close> as a JSON object.
\<close>

theorem createTransaction_success:
  assumes "Decode E (Body r) = Inr req"
    and "0 < req_Value req"
    and "QueryRow E (db a) createTransaction_query
           [ArgFloat (req_Value req), ArgTime (req_Timestamp req)] = (Inr txn, x)"
  shows "cv_val (txnCounter (fst (createTransaction E W a w r)))
           = (cv_val (txnCounter a))
               ([''completed''] := cv_val (txnCounter a) [''completed''] + 1)
     \<and> g_val (txnValueSum (fst (createTransaction E W a w r)))
           = float64_add (g_val (txnValueSum a)) (req_Value req)
     \<and> Code (snd (createTransaction E Recorder a NewRecorder r)) = 201
     \<and> RespBody (snd (createTransaction E Recorder a NewRecorder r))
           = Marshal_Transaction E txn @ [CHR 0x0A]
     \<and> HeaderMap (snd (createTransaction E Recorder a NewRecorder r)) ''Content-Type''
           = Some ''application/json''"
  using assms
  by (simp add: createTransaction_def Let_def IncVec_def Add_def Encode_def rec_defs)

text \<open>
  A run: the request of the README on an empty table. The sum of 0 and 150.75 is a
  \<open>float64\<close>, so here the gauge holds it exactly.
\<close>

theorem createTransaction_success_witness:
  "Decode mem_env (Body (post_request body_150))
     = Inr \<lparr>req_Value = 150.75, req_Timestamp = 1755700200000000000\<rparr>
   \<and> cv_val (txnCounter (fst (createTransaction mem_env Recorder (start_App empty_store)
        NewRecorder (post_request body_150)))) [''completed''] = 1
   \<and> g_val (txnValueSum (fst (createTransaction mem_env Recorder (start_App empty_store)
        NewRecorder (post_request body_150)))) = Finite 150.75
   \<and> Code (snd (createTransaction mem_env Recorder (start_App empty_store)
        NewRecorder (post_request body_150))) = 201"
proof -
  let ?req = "\<lparr>req_Value = 150.75, req_Timestamp = 1755700200000000000\<rparr>"
  let ?txn = "\<lparr>ID = ''1'', Value = 150.75, Timestamp = 1755700200000000000,
               Status = ''completed'', CreatedAt = 1755700201000000000\<rparr>"
  have parses: "Decode mem_env (Body (post_request body_150)) = Inr ?req"
    by (simp add: mem_env_def mem_Decode_def post_request_def)
  have positive: "0 < req_Value ?req"
    by simp
  have inserted: "QueryRow mem_env (db (start_App empty_store)) createTransaction_query
      [ArgFloat (req_Value ?req), ArgTime (req_Timestamp ?req)]
      = (Inr ?txn, empty_store\<lparr>table := [?txn]\<rparr>)"
    by (simp add: mem_env_def start_App_sel empty_store_def Itoa_1 Let_def)
  show ?thesis
    using createTransaction_success [OF parses positive inserted, of Recorder NewRecorder] parses
    by (simp add: start_App_sel float64_add_def round64_150_75)
qed

text \<open>
  C3: when the body decodes to a request whose value is at most 0, the client receives
  status 400, \<open>transactions_errors_total\<close> grows by one, and the store is as before.
  No statement is sent to the store: the outcome is the same whatever its operations
  are.
\<close>

theorem createTransaction_rejects_nonpositive:
  assumes "Decode E (Body r) = Inr req"
    and "req_Value req \<le> 0"
  shows "Code (snd (createTransaction E Recorder a NewRecorder r)) = 400
     \<and> c_val (txnErrorCounter (fst (createTransaction E W a w r)))
           = c_val (txnErrorCounter a) + 1
     \<and> db (fst (createTransaction E W a w r)) = db a
     \<and> createTransaction (E\<lparr>QueryRow := q1, Query := q2\<rparr>) W a w r
           = createTransaction E W a w r"
  using assms
  by (simp add: createTransaction_def Inc_def http_Error_Recorder)

text \<open>A run: a request with value -5 on an empty table.\<close>

theorem createTransaction_rejects_nonpositive_witness:
  "Decode mem_env (Body (post_request body_neg5))
     = Inr \<lparr>req_Value = - 5, req_Timestamp = 1755700200000000000\<rparr>
   \<and> Code (snd (createTransaction mem_env Recorder (start_App empty_store) NewRecorder
        (post_request body_neg5))) = 400
   \<and> c_val (txnErrorCounter (fst (createTransaction mem_env Recorder (start_App empty_store)
        NewRecorder (post_request body_neg5)))) = 1
   \<and> table (db (fst (createTransaction mem_env Recorder (start_App empty_store)
        NewRecorder (post_request body_neg5)))) = []"
proof -
  let ?req = "\<lparr>req_Value = - 5, req_Timestamp = 1755700200000000000\<rparr>"
  have parses: "Decode mem_env (Body (post_request body_neg5)) = Inr ?req"
    by (simp add: mem_env_def mem_Decode_def post_request_def body_neg5_def body_150_def
        field_key_def quoted_def)
  have nonpositive: "req_Value ?req \<le> 0"
    by simp
  show ?thesis
    using createTransaction_rejects_nonpositive
      [OF parses nonpositive, of "start_App empty_store" Recorder NewRecorder] parses
    by (simp add: start_App_sel empty_store_def)
qed

section \<open>Store failures (C5)\<close>

text \<open>
  An error returned by the store call of a handler gives status 500. In
  \<open>createTransaction\<close> the state changes in the store and in
  \<open>transactions_errors_total\<close>, which grows by one; in \<open>listTransactions\<close> and in
  \<open>getTransaction\<close> no instrument changes at all. For \<open>getTransaction\<close> the error is
  any error other than \<open>sql.ErrNoRows\<close>, which is the not-found outcome.
\<close>

lemma store_call_error_is_500:
  "(Decode E (Body rc) = Inr req \<and> 0 < req_Value req
      \<and> QueryRow E (db a) createTransaction_query
           [ArgFloat (req_Value req), ArgTime (req_Timestamp req)] = (Inl e, x)
      \<longrightarrow> Code (snd (createTransaction E Recorder a NewRecorder rc)) = 500
        \<and> fst (createTransaction E W a w rc)
            = a\<lparr>db := x,
                 txnErrorCounter := (txnErrorCounter a)\<lparr>c_val := c_val (txnErrorCounter a) + 1\<rparr>\<rparr>)
   \<and> (Query E (db a) listTransactions_query [ArgInt (list_limit rl), ArgInt (list_offset rl)]
         = (Inl e, x)
      \<longrightarrow> Code (snd (listTransactions E Recorder a NewRecorder rl)) = 500
        \<and> fst (listTransactions E W a w rl) = a\<lparr>db := x\<rparr>)
   \<and> (QueryRow E (db a) getTransaction_query [ArgString (Get (Vars rg) ''id'')] = (Inl e, x)
         \<and> e \<noteq> ErrNoRows
      \<longrightarrow> Code (snd (getTransaction E Recorder a NewRecorder rg)) = 500
        \<and> fst (getTransaction E W a w rg) = a\<lparr>db := x\<rparr>)"
  by (simp add: createTransaction_def listTransactions_def getTransaction_def Inc_def Let_def
      http_Error_Recorder)

text \<open>The three handlers on a store that cannot be reached.\<close>

lemma store_call_error_is_500_run:
  "Code (snd (createTransaction mem_env Recorder (start_App down_store) NewRecorder
      (post_request body_150))) = 500
   \<and> c_val (txnErrorCounter (fst (createTransaction mem_env Recorder (start_App down_store)
      NewRecorder (post_request body_150)))) = 1
   \<and> Code (snd (listTransactions mem_env Recorder (start_App down_store) NewRecorder
      (list_request []))) = 500
   \<and> c_val (txnErrorCounter (fst (listTransactions mem_env Recorder (start_App down_store)
      NewRecorder (list_request [])))) = 0
   \<and> Code (snd (getTransaction mem_env Recorder (start_App down_store) NewRecorder
      (get_request ''1''))) = 500
   \<and> c_val (txnErrorCounter (fst (getTransaction mem_env Recorder (start_App down_store)
      NewRecorder (get_request ''1'')))) = 0"
proof -
  let ?req = "\<lparr>req_Value = 150.75, req_Timestamp = 1755700200000000000\<rparr>"
  let ?e = "Err ''connection refused''"
  let ?a = "start_App down_store"
  have create: "Decode mem_env (Body (post_request body_150)) = Inr ?req \<and> 0 < req_Value ?req
      \<and> QueryRow mem_env (db ?a) createTransaction_query
           [ArgFloat (req_Value ?req), ArgTime (req_Timestamp ?req)] = (Inl ?e, down_store)"
    by (simp add: mem_env_def mem_Decode_def post_request_def start_App_sel down_store_def)
  have list: "Query mem_env (db ?a) listTransactions_query
      [ArgInt (list_limit (list_request [])), ArgInt (list_offset (list_request []))]
      = (Inl ?e, down_store)"
    by (simp add: mem_env_def start_App_sel down_store_def)
  have get: "QueryRow mem_env (db ?a) getTransaction_query
      [ArgString (Get (Vars (get_request ''1'')) ''id'')] = (Inl ?e, down_store)
      \<and> ?e \<noteq> ErrNoRows"
    by (simp add: mem_env_def start_App_sel down_store_def)
  note fact = store_call_error_is_500 [where E = mem_env and a = ?a and e = ?e and x = down_store
      and W = Recorder and w = NewRecorder and req = ?req and rc = "post_request body_150"
      and rl = "list_request []" and rg = "get_request ''1''"]
  from fact create have
    "Code (snd (createTransaction mem_env Recorder ?a NewRecorder (post_request body_150))) = 500
     \<and> fst (createTransaction mem_env Recorder ?a NewRecorder (post_request body_150))
         = ?a\<lparr>db := down_store,
               txnErrorCounter := (txnErrorCounter ?a)\<lparr>c_val := c_val (txnErrorCounter ?a) + 1\<rparr>\<rparr>"
    by blast
  moreover from fact list have
    "Code (snd (listTransactions mem_env Recorder ?a NewRecorder (list_request []))) = 500
     \<and> fst (listTransactions mem_env Recorder ?a NewRecorder (list_request []))
         = ?a\<lparr>db := down_store\<rparr>"
    by blast
  moreover from fact get have
    "Code (snd (getTransaction mem_env Recorder ?a NewRecorder (get_request ''1''))) = 500
     \<and> fst (getTransaction mem_env Recorder ?a NewRecorder (get_request ''1''))
         = ?a\<lparr>db := down_store\<rparr>"
    by blast
  ultimately show ?thesis
    by (simp add: start_App_sel)
qed

text \<open>
  C5 at its failing input: \<open>GET /transactions\<close> when the store fails while the rows
  are read. \<open>a.db.Query\<close> has returned without error, one row arrives, then
  \<open>rows.Next()\<close> returns false and \<open>rows.Err()\<close> holds the error. The handler never
  reads \<open>rows.Err()\<close>: the client receives status 200 with the one row as the whole
  list, and no instrument changes. The same holds for every store, codec, request and
  error: status 200 whenever the query call itself succeeds.
\<close>

theorem listTransactions_iteration_failure:
  "Query broken_stream_env (db (start_App one_row_store)) listTransactions_query
      [ArgInt (list_limit (list_request [])), ArgInt (list_offset (list_request []))]
     = (Inr \<lparr>rows_Next = [Inr txn_1],
              rows_Err = Some (Err ''connection reset by peer'')\<rparr>, one_row_store)
   \<and> Code (snd (listTransactions broken_stream_env Recorder (start_App one_row_store)
        NewRecorder (list_request []))) = 200
   \<and> RespBody (snd (listTransactions broken_stream_env Recorder (start_App one_row_store)
        NewRecorder (list_request [])))
       = ''['' @ Marshal_Transaction broken_stream_env txn_1 @ '']'' @ [CHR 0x0A]
   \<and> fst (listTransactions broken_stream_env Recorder (start_App one_row_store)
        NewRecorder (list_request []))
       = (start_App one_row_store)\<lparr>db := one_row_store\<rparr>
   \<and> Code (snd (listTransactions
        (E\<lparr>Query := \<lambda>x q args. (Inr \<lparr>rows_Next = rs, rows_Err = Some e\<rparr>, x)\<rparr>)
        Recorder a NewRecorder r)) = 200"
proof (intro conjI)
  show run: "Query broken_stream_env (db (start_App one_row_store)) listTransactions_query
      [ArgInt (list_limit (list_request [])), ArgInt (list_offset (list_request []))]
     = (Inr \<lparr>rows_Next = [Inr txn_1],
              rows_Err = Some (Err ''connection reset by peer'')\<rparr>, one_row_store)"
    by (simp add: broken_stream_env_def broken_Query_def start_App_sel)
  show "Code (snd (listTransactions broken_stream_env Recorder (start_App one_row_store)
        NewRecorder (list_request []))) = 200"
    by (simp add: listTransactions_def run Encode_Recorder Let_def)
  show "RespBody (snd (listTransactions broken_stream_env Recorder (start_App one_row_store)
        NewRecorder (list_request [])))
       = ''['' @ Marshal_Transaction broken_stream_env txn_1 @ '']'' @ [CHR 0x0A]"
    by (simp add: listTransactions_def run Encode_Recorder Marshal_Transactions_def
        append_slice_def Let_def)
  show "fst (listTransactions broken_stream_env Recorder (start_App one_row_store)
        NewRecorder (list_request []))
       = (start_App one_row_store)\<lparr>db := one_row_store\<rparr>"
    by (simp add: listTransactions_def run Let_def)
  show "Code (snd (listTransactions
        (E\<lparr>Query := \<lambda>x q args. (Inr \<lparr>rows_Next = rs, rows_Err = Some e\<rparr>, x)\<rparr>)
        Recorder a NewRecorder r)) = 200"
    by (simp add: listTransactions_def Encode_Recorder Let_def)
qed

section \<open>Pagination parameters of List (C6)\<close>

text \<open>
  C6: the limit is the value \<open>strconv.Atoi\<close> parses from the \<open>limit\<close> parameter when
  that value is in (0, 100], and 50 otherwise (absent, not an integer, out of range);
  the offset is the parsed \<open>offset\<close> when it is at least 0, and 0 otherwise. Both are
  always in the range the store accepts. \<open>limit=500\<close> gives the same run as \<open>limit=50\<close>.
  The status of the response is decided by the result of the store query alone: 500
  when the query fails and 200 otherwise, whatever the parameters are.
\<close>

theorem list_pagination_defaults:
  "list_limit r = (case Atoi (Get (URL_Query r) ''limit'') of
                     None \<Rightarrow> 50
                   | Some n \<Rightarrow> if 0 < n \<and> n \<le> 100 then n else 50)
   \<and> 0 < list_limit r \<and> list_limit r \<le> 100 \<and> 0 \<le> list_offset r
   \<and> list_offset r = (case Atoi (Get (URL_Query r) ''offset'') of
                        None \<Rightarrow> 0
                      | Some n \<Rightarrow> if 0 \<le> n then n else 0)
   \<and> listTransactions E W a w (r\<lparr>URL_Query := [(''limit'', ''500'')]\<rparr>)
       = listTransactions E W a w (r\<lparr>URL_Query := [(''limit'', ''50'')]\<rparr>)
   \<and> Code (snd (listTransactions E Recorder a NewRecorder r))
       = (case fst (Query E (db a) listTransactions_query
                      [ArgInt (list_limit r), ArgInt (list_offset r)]) of
            Inl e \<Rightarrow> 500
          | Inr rows \<Rightarrow> 200)"
proof (intro conjI)
  show "list_limit r = (case Atoi (Get (URL_Query r) ''limit'') of
                     None \<Rightarrow> 50
                   | Some n \<Rightarrow> if 0 < n \<and> n \<le> 100 then n else 50)"
    by (simp add: list_limit_def Let_def Atoi_empty split: option.splits)
  show "0 < list_limit r" and "list_limit r \<le> 100" and "0 \<le> list_offset r"
    using list_limit_range [of r] list_offset_range [of r] by simp_all
  show "list_offset r = (case Atoi (Get (URL_Query r) ''offset'') of
                        None \<Rightarrow> 0
                      | Some n \<Rightarrow> if 0 \<le> n then n else 0)"
    by (simp add: list_offset_def Let_def Atoi_empty split: option.splits)
  have "list_limit (r\<lparr>URL_Query := [(''limit'', ''500'')]\<rparr>) = 50"
    by (simp add: list_limit_def Get_def Atoi_500)
  moreover have "list_limit (r\<lparr>URL_Query := [(''limit'', ''50'')]\<rparr>) = 50"
    by (simp add: list_limit_def Get_def Atoi_50)
  moreover have "list_offset (r\<lparr>URL_Query := [(''limit'', ''500'')]\<rparr>)
      = list_offset (r\<lparr>URL_Query := [(''limit'', ''50'')]\<rparr>)"
    by (simp add: list_offset_def Get_def)
  ultimately show "listTransactions E W a w (r\<lparr>URL_Query := [(''limit'', ''500'')]\<rparr>)
       = listTransactions E W a w (r\<lparr>URL_Query := [(''limit'', ''50'')]\<rparr>)"
    by (simp add: listTransactions_def)
  show "Code (snd (listTransactions E Recorder a NewRecorder r))
       = (case fst (Query E (db a) listTransactions_query
                      [ArgInt (list_limit r), ArgInt (list_offset r)]) of
            Inl e \<Rightarrow> 500
          | Inr rows \<Rightarrow> 200)"
    by (simp add: listTransactions_def Let_def http_Error_Recorder Encode_Recorder
        split: prod.splits sum.splits)
qed

section \<open>The body of List with no rows (C7)\<close>

text \<open>
  C7 at its failing input: \<open>GET /transactions\<close> on an empty table. The status is 200,
  but \<open>transactions\<close> is still the nil slice when it is encoded, and the body is
  \<open>null\<close>, not the empty array. The same body is sent, with any codec, when the
  query yields rows and none of them can be scanned.
\<close>

theorem listTransactions_no_rows_body:
  "Code (snd (listTransactions mem_env Recorder (start_App empty_store) NewRecorder
      (list_request []))) = 200
   \<and> RespBody (snd (listTransactions mem_env Recorder (start_App empty_store) NewRecorder
      (list_request []))) = ''null'' @ [CHR 0x0A]
   \<and> RespBody (snd (listTransactions (E\<lparr>Query := \<lambda>x q args. (Inr \<lparr>rows_Next = map Inl errs, rows_Err = err\<rparr>, x)\<rparr>)
      Recorder a NewRecorder r)) = ''null'' @ [CHR 0x0A]"
proof (intro conjI)
  have run: "Query mem_env (db (start_App empty_store)) listTransactions_query
      [ArgInt (list_limit (list_request [])), ArgInt (list_offset (list_request []))]
      = (Inr \<lparr>rows_Next = [], rows_Err = None\<rparr>, empty_store)"
    by (simp add: mem_env_def start_App_sel empty_store_def)
  show "Code (snd (listTransactions mem_env Recorder (start_App empty_store) NewRecorder
      (list_request []))) = 200"
    by (simp add: listTransactions_def run Encode_Recorder Let_def)
  show "RespBody (snd (listTransactions mem_env Recorder (start_App empty_store) NewRecorder
      (list_request []))) = ''null'' @ [CHR 0x0A]"
    by (simp add: listTransactions_def run Encode_Recorder Marshal_Transactions_def Let_def)
  show "RespBody (snd (listTransactions (E\<lparr>Query := \<lambda>x q args. (Inr \<lparr>rows_Next = map Inl errs, rows_Err = err\<rparr>, x)\<rparr>)
      Recorder a NewRecorder r)) = ''null'' @ [CHR 0x0A]"
    by (simp add: listTransactions_def scan_rows_all_fail Encode_Recorder
        Marshal_Transactions_def Let_def)
qed

section \<open>Get on an absent identifier (C8)\<close>

text \<open>
  C8, as stated: a Get on an absent identifier leaves every counter unchanged, the
  HTTP request counters included. The route runs inside the middleware, which counts
  the request: after \<open>GET /transactions/999999\<close> on an empty table,
  \<open>http_requests_total\<close> at (\<open>/transactions/999999\<close>, \<open>GET\<close>, \<open>404\<close>) is not what
  it was.
\<close>

theorem get_absent_counts_request_counterexample:
  "cv_val (httpRequests (fst (metricsMiddleware (getTransaction mem_env) 0 5000000 Recorder
      (start_App empty_store) NewRecorder (get_request ''999999''))))
      [''/transactions/999999'', ''GET'', ''404'']
   \<noteq> cv_val (httpRequests (start_App empty_store)) [''/transactions/999999'', ''GET'', ''404'']"
  by (simp add: metricsMiddleware_def getTransaction_absent [OF mem_absent]
      http_Error_statusCode Itoa_404 IncVec_def start_App_sel get_request_sel Let_def)

text \<open>
  C8, amended: when the store answers the lookup with \<open>sql.ErrNoRows\<close>, the client
  receives status 404 and \<open>getTransaction\<close> itself changes no instrument. Through the
  middleware, \<open>transactions_total\<close>, \<open>transactions_value_sum\<close> and
  \<open>transactions_errors_total\<close> are unchanged and \<open>http_requests_total\<close> grows by one
  at (path, method, \<open>404\<close>) and nowhere else.
\<close>

theorem get_absent_404:
  assumes "QueryRow E (db a) getTransaction_query [ArgString (Get (Vars r) ''id'')]
             = (Inl ErrNoRows, x)"
  shows "Code (snd (getTransaction E Recorder a NewRecorder r)) = 404
     \<and> fst (getTransaction E W a w r) = a\<lparr>db := x\<rparr>
     \<and> (let a' = fst (metricsMiddleware (getTransaction E) start finish U a w r);
             lbl = [URL_Path r, Method r, ''404'']
         in txnCounter a' = txnCounter a
          \<and> txnValueSum a' = txnValueSum a
          \<and> txnErrorCounter a' = txnErrorCounter a
          \<and> cv_val (httpRequests a')
              = (cv_val (httpRequests a))(lbl := cv_val (httpRequests a) lbl + 1))"
proof -
  have sized: "getTransaction E W' a' w' r
      = (a'\<lparr>db := x\<rparr>, http_Error W' w' ''Transaction not found'' 404)"
    if "db a' = db a" for W' :: "'c responseWriter http_ResponseWriter" and a' w'
    using assms that by (simp add: getTransaction_def Let_def)
  have "Code (snd (getTransaction E Recorder a NewRecorder r)) = 404"
    by (simp add: getTransaction_absent [OF assms] http_Error_Recorder)
  moreover have "fst (getTransaction E W a w r) = a\<lparr>db := x\<rparr>"
    by (simp add: getTransaction_absent [OF assms])
  moreover have "let a' = fst (metricsMiddleware (getTransaction E) start finish U a w r);
             lbl = [URL_Path r, Method r, ''404'']
         in txnCounter a' = txnCounter a
          \<and> txnValueSum a' = txnValueSum a
          \<and> txnErrorCounter a' = txnErrorCounter a
          \<and> cv_val (httpRequests a')
              = (cv_val (httpRequests a))(lbl := cv_val (httpRequests a) lbl + 1)"
    by (simp add: metricsMiddleware_def sized http_Error_statusCode Itoa_404 IncVec_def
        Let_def)
  ultimately show ?thesis
    by blast
qed

text \<open>A run: \<open>GET /transactions/999999\<close> on an empty table.\<close>

theorem get_absent_404_witness:
  "Code (snd (getTransaction mem_env Recorder (start_App empty_store) NewRecorder
      (get_request ''999999''))) = 404
   \<and> c_val (txnErrorCounter (fst (metricsMiddleware (getTransaction mem_env) 0 5000000
      Recorder (start_App empty_store) NewRecorder (get_request ''999999'')))) = 0
   \<and> cv_val (httpRequests (fst (metricsMiddleware (getTransaction mem_env) 0 5000000
      Recorder (start_App empty_store) NewRecorder (get_request ''999999''))))
      [''/transactions/999999'', ''GET'', ''404''] = 1"
  using get_absent_404 [OF mem_absent, of Recorder NewRecorder 0 5000000 Recorder]
  by (simp add: Let_def start_App_sel get_request_sel)

section \<open>Get does not validate the identifier (C10)\<close>

text \<open>
  C10: \<open>getTransaction\<close> sends the route variable \<open>id\<close> to the store as it is, for
  every request, and the store is left as that one query leaves it. The status is
  decided by the store's answer alone: 404 for \<open>sql.ErrNoRows\<close>, 500 for any other
  error, 200 for a row; never 400. On the in-memory store, whose identifier column is
  an integer, the identifier \<open>abc\<close> is an error of the store and gives 500.
\<close>

theorem getTransaction_forwards_raw_id:
  "Code (snd (getTransaction E Recorder a NewRecorder r))
     = (case fst (QueryRow E (db a) getTransaction_query [ArgString (Get (Vars r) ''id'')]) of
          Inl e \<Rightarrow> if e = ErrNoRows then 404 else 500
        | Inr txn \<Rightarrow> 200)
   \<and> db (fst (getTransaction E W a w r))
     = snd (QueryRow E (db a) getTransaction_query [ArgString (Get (Vars r) ''id'')])
   \<and> Code (snd (getTransaction mem_env Recorder (start_App one_row_store) NewRecorder
        (get_request ''abc''))) = 500"
proof (intro conjI)
  show "Code (snd (getTransaction E Recorder a NewRecorder r))
     = (case fst (QueryRow E (db a) getTransaction_query [ArgString (Get (Vars r) ''id'')]) of
          Inl e \<Rightarrow> if e = ErrNoRows then 404 else 500
        | Inr txn \<Rightarrow> 200)"
    by (simp add: getTransaction_def Let_def http_Error_Recorder Encode_Recorder
        split: prod.splits sum.splits)
  show "db (fst (getTransaction E W a w r))
     = snd (QueryRow E (db a) getTransaction_query [ArgString (Get (Vars r) ''id'')])"
    by (simp add: getTransaction_def Let_def split: prod.splits sum.splits)
  have "Atoi ''abc'' = None"
    by (simp add: Atoi_def digit_val_def)
  then show "Code (snd (getTransaction mem_env Recorder (start_App one_row_store) NewRecorder
        (get_request ''abc''))) = 500"
    by (simp add: getTransaction_def Let_def http_Error_Recorder get_request_sel Get_def
        mem_env_def start_App_sel one_row_store_def)
qed

end
